theory Spec2Isabelle
  imports Complex_Main
begin

section \<open>Shallow embedding of scripts/performance\_benchmark.py\<close>

text \<open>
  Python floats are modelled as reals. The measurements and their statistics are exact
  reals; the comparison with a baseline, where a rounding decides on which side of a
  threshold a change falls, rounds every operation to the nearest double. Overflow to
  infinity, subnormal numbers and NaN are outside the model. Everything the script reads
  from the outside (clock readings, the outcome of a query, of a simulated user action,
  of a resource reading, the baseline file) is an explicit argument. Every exception of
  the source is a value \<open>Inl e\<close> of a sum type; a \<open>try ... except Exception\<close> is a
  case split on it.
\<close>

datatype error =
  ZeroDivisionError | StatisticsError | ValueError | OperationalError | OSError

text \<open>A dict with string keys and numeric values, such as one statistics entry.\<close>

type_synonym stats = "string \<rightharpoonup> real"

definition bind_res :: "error + 'a \<Rightarrow> ('a \<Rightarrow> error + 'b) \<Rightarrow> error + 'b" where
  "bind_res m f = (case m of Inl e \<Rightarrow> Inl e | Inr x \<Rightarrow> f x)"

subsection \<open>Library functions the script calls\<close>

text \<open>Float division \<open>a / b\<close>: raises ZeroDivisionError when \<open>b\<close> is zero.\<close>

definition py_div :: "real \<Rightarrow> real \<Rightarrow> error + real" where
  "py_div a b = (if b = 0 then Inl ZeroDivisionError else Inr (a / b))"

text \<open>\<open>statistics.mean\<close>: raises StatisticsError on empty data.\<close>

definition py_mean :: "real list \<Rightarrow> error + real" where
  "py_mean xs = (if xs = [] then Inl StatisticsError
                 else Inr (sum_list xs / real (length xs)))"

text \<open>
  \<open>statistics.median\<close>: raises StatisticsError on empty data; otherwise the middle
  element of the sorted data, or the mean of the two middle elements.
\<close>

definition py_median :: "real list \<Rightarrow> error + real" where
  "py_median xs =
     (let s = sort xs; n = length s in
      if n = 0 then Inl StatisticsError
      else if n mod 2 = 1 then Inr (s ! (n div 2))
      else Inr ((s ! (n div 2 - 1) + s ! (n div 2)) / 2))"

text \<open>\<open>min\<close> and \<open>max\<close> of a list: raise ValueError on an empty one.\<close>

definition py_min :: "real list \<Rightarrow> error + real" where
  "py_min xs = (case xs of [] \<Rightarrow> Inl ValueError | x # r \<Rightarrow> Inr (fold min r x))"

definition py_max :: "real list \<Rightarrow> error + real" where
  "py_max xs = (case xs of [] \<Rightarrow> Inl ValueError | x # r \<Rightarrow> Inr (fold max r x))"

text \<open>
  \<open>statistics.stdev\<close>: the square root of the sample variance, the sum of squared
  deviations from the mean divided by \<open>n - 1\<close>; raises StatisticsError on fewer than two
  data points.
\<close>

definition py_stdev :: "real list \<Rightarrow> error + real" where
  "py_stdev xs =
     (let n = length xs in
      if n < 2 then Inl StatisticsError
      else let m = sum_list xs / real n
           in Inr (sqrt (sum_list (map (\<lambda>x. (x - m)\<^sup>2) xs) / real (n - 1))))"

subsection \<open>simulate\_user\_session and benchmark\_load\_performance\<close>

text \<open>
  One simulated session as the outside world determines it: the two readings of
  \<open>time.perf_counter()\<close> and, for each action, whether awaiting it (and the think-time
  sleep after it) returns or raises an Exception.
\<close>

record session_run =
  session_start :: real
  session_end :: real
  perform :: "string \<Rightarrow> error + unit"

definition actions :: "string list" where
  "actions = [''load_main_page'', ''fetch_lottery_data'', ''analyze_hot_numbers'',
              ''analyze_cold_numbers'', ''generate_prediction'']"

text \<open>
  The loop \<open>for action in actions: try: await action(); await asyncio.sleep(0.1)
  except Exception: pass\<close>. Both branches go on with the next action.
\<close>

fun run_actions :: "(string \<Rightarrow> error + unit) \<Rightarrow> string list \<Rightarrow> error + unit" where
  "run_actions act [] = Inr ()"
| "run_actions act (a # rest) =
     (case act a of
        Inl e \<Rightarrow> run_actions act rest
      | Inr u \<Rightarrow> run_actions act rest)"

definition simulate_user_session :: "session_run \<Rightarrow> error + real" where
  "simulate_user_session s =
     (case run_actions (perform s) actions of
        Inl e \<Rightarrow> Inl e
      | Inr u \<Rightarrow> Inr ((session_end s - session_start s) * 1000))"

text \<open>
  \<open>asyncio.gather(*tasks, return_exceptions=True)\<close>: one entry per task, the returned
  number or the exception object.
\<close>

datatype gather_result = Number real | ExceptionObj error

definition gather :: "(error + real) list \<Rightarrow> gather_result list" where
  "gather rs = map (\<lambda>r. case r of Inl e \<Rightarrow> ExceptionObj e | Inr v \<Rightarrow> Number v) rs"

fun is_exception :: "gather_result \<Rightarrow> bool" where
  "is_exception (ExceptionObj e) = True"
| "is_exception (Number v) = False"

fun numbers_of :: "gather_result list \<Rightarrow> real list" where
  "numbers_of [] = []"
| "numbers_of (Number v # rs) = v # numbers_of rs"
| "numbers_of (ExceptionObj e # rs) = numbers_of rs"

text \<open>One load level as the outside world determines it.\<close>

record level_run =
  start_time :: real
  end_time :: real
  sessions :: "nat \<Rightarrow> session_run"

text \<open>
  The body of the loop over \<open>concurrent_users\<close>: the dict stored under
  \<open>f"{users}_users"\<close>. The values of the dict literal are evaluated in the order written.
\<close>

definition load_level :: "nat \<Rightarrow> level_run \<Rightarrow> error + stats" where
  "load_level users lv =
     (let session_results = gather (map (\<lambda>i. simulate_user_session (sessions lv i)) [0..<users]);
          total_time = (end_time lv - start_time lv) * 1000;
          successful_sessions = length (filter (\<lambda>r. \<not> is_exception r) session_results);
          session_times = numbers_of session_results
      in bind_res (py_div (real successful_sessions) (real users)) (\<lambda>success_rate.
         bind_res (if session_times \<noteq> [] then py_mean session_times else Inr 0) (\<lambda>average.
         bind_res (py_div total_time 1000) (\<lambda>seconds.
         bind_res (py_div (real successful_sessions) seconds) (\<lambda>throughput.
           Inr [''total_time_ms'' \<mapsto> total_time,
                ''successful_sessions'' \<mapsto> real successful_sessions,
                ''success_rate'' \<mapsto> success_rate,
                ''average_session_time_ms'' \<mapsto> average,
                ''throughput_sessions_per_second'' \<mapsto> throughput])))))"

definition concurrent_users :: "nat list" where
  "concurrent_users = [1, 5, 10, 20]"

text \<open>
  The loop itself. The result dict is keyed here by the number of users, which stands for
  the key \<open>f"{users}_users"\<close>. An exception of one level leaves the function.
\<close>

fun load_loop ::
  "(nat \<Rightarrow> level_run) \<Rightarrow> nat list \<Rightarrow> (nat \<rightharpoonup> stats) \<Rightarrow> error + (nat \<rightharpoonup> stats)" where
  "load_loop w [] results = Inr results"
| "load_loop w (users # rest) results =
     (case load_level users (w users) of
        Inl e \<Rightarrow> Inl e
      | Inr entry \<Rightarrow> load_loop w rest (results(users \<mapsto> entry)))"

definition benchmark_load_performance :: "(nat \<Rightarrow> level_run) \<Rightarrow> error + (nat \<rightharpoonup> stats)" where
  "benchmark_load_performance w = load_loop w concurrent_users Map.empty"

subsection \<open>benchmark\_database\_performance and benchmark\_api\_performance\<close>

text \<open>
  One timed execution as the outside world determines it: it returns, between two readings
  of \<open>time.perf_counter()\<close> and with a payload (the number of rows fetched), or it raises.
\<close>

datatype 'a run = Completed real real 'a | Failed error

text \<open>
  The loop \<open>for _ in range(10)\<close> of the database benchmark, on the variables
  \<open>durations\<close>, \<open>success_count\<close> and \<open>rows\<close> (\<open>None\<close> while \<open>rows\<close> is not yet a local).
\<close>

fun db_runs ::
  "(nat \<Rightarrow> nat run) \<Rightarrow> nat list \<Rightarrow> real list \<times> nat \<times> nat option
     \<Rightarrow> real list \<times> nat \<times> nat option" where
  "db_runs r [] acc = acc"
| "db_runs r (i # rest) (durations, success_count, rows) =
     (case r i of
        Completed st en n \<Rightarrow>
          db_runs r rest (durations @ [(en - st) * 1000], success_count + 1, Some n)
      | Failed e \<Rightarrow> db_runs r rest (durations, success_count, rows))"

definition db_entry :: "real list \<Rightarrow> nat \<Rightarrow> nat option \<Rightarrow> error + stats" where
  "db_entry durations success_count rows =
     bind_res (py_mean durations) (\<lambda>average.
     bind_res (py_median durations) (\<lambda>median.
     bind_res (py_min durations) (\<lambda>mn.
     bind_res (py_max durations) (\<lambda>mx.
     bind_res (if length durations > 1 then py_stdev durations else Inr 0) (\<lambda>std_dev.
     bind_res (py_div (real success_count) 10) (\<lambda>success_rate.
       Inr [''average_ms'' \<mapsto> average,
            ''median_ms'' \<mapsto> median,
            ''min_ms'' \<mapsto> mn,
            ''max_ms'' \<mapsto> mx,
            ''std_dev_ms'' \<mapsto> std_dev,
            ''success_rate'' \<mapsto> success_rate,
            ''rows_returned'' \<mapsto> (case rows of Some n \<Rightarrow> real n | None \<Rightarrow> 0)]))))))"

definition queries :: "string list" where
  "queries = [''select_all_draws'', ''select_with_filters'', ''count_query'',
              ''complex_join'', ''index_test'']"

fun db_loop ::
  "(string \<Rightarrow> nat \<Rightarrow> nat run) \<Rightarrow> string list \<Rightarrow> (string \<rightharpoonup> stats) \<times> nat option
     \<Rightarrow> error + (string \<rightharpoonup> stats) \<times> nat option" where
  "db_loop w [] acc = Inr acc"
| "db_loop w (query_name # rest) (results, rows) =
     (case db_runs (w query_name) [0..<10] ([], 0, rows) of
        (durations, success_count, rows') \<Rightarrow>
          if durations \<noteq> [] then
            (case db_entry durations success_count rows' of
               Inl e \<Rightarrow> Inl e
             | Inr entry \<Rightarrow> db_loop w rest (results(query_name \<mapsto> entry), rows'))
          else db_loop w rest (results, rows'))"

text \<open>\<open>connect\<close> is the outcome of \<open>sqlite3.connect\<close>, which is outside every \<open>try\<close>.\<close>

definition benchmark_database_performance ::
  "error + unit \<Rightarrow> (string \<Rightarrow> nat \<Rightarrow> nat run) \<Rightarrow> error + (string \<rightharpoonup> stats)" where
  "benchmark_database_performance connect w =
     (case connect of
        Inl e \<Rightarrow> Inl e
      | Inr u \<Rightarrow> (case db_loop w queries (Map.empty, None) of
                   Inl e \<Rightarrow> Inl e
                 | Inr (results, rows) \<Rightarrow> Inr results))"

fun api_runs ::
  "(nat \<Rightarrow> unit run) \<Rightarrow> nat list \<Rightarrow> real list \<times> nat \<Rightarrow> real list \<times> nat" where
  "api_runs r [] acc = acc"
| "api_runs r (i # rest) (durations, success_count) =
     (case r i of
        Completed st en u \<Rightarrow> api_runs r rest (durations @ [(en - st) * 1000], success_count + 1)
      | Failed e \<Rightarrow> api_runs r rest (durations, success_count))"

definition api_entry :: "real list \<Rightarrow> nat \<Rightarrow> error + stats" where
  "api_entry durations success_count =
     bind_res (py_mean durations) (\<lambda>average.
     bind_res (py_median durations) (\<lambda>median.
     bind_res (py_min durations) (\<lambda>mn.
     bind_res (py_max durations) (\<lambda>mx.
     bind_res (py_div (real success_count) 10) (\<lambda>success_rate.
       Inr [''average_ms'' \<mapsto> average,
            ''median_ms'' \<mapsto> median,
            ''min_ms'' \<mapsto> mn,
            ''max_ms'' \<mapsto> mx,
            ''success_rate'' \<mapsto> success_rate])))))"

text \<open>The endpoints of \<open>api_tests\<close>, in order; the first two tests share one endpoint.\<close>

definition api_tests :: "string list" where
  "api_tests = [''/api/lottery/draws'', ''/api/lottery/draws'',
                ''/api/analysis/hot_numbers'', ''/api/analysis/cold_numbers'']"

text \<open>The world gives the runs of the \<open>k\<close>-th test; the result is keyed by endpoint.\<close>

fun api_loop ::
  "(nat \<Rightarrow> nat \<Rightarrow> unit run) \<Rightarrow> (nat \<times> string) list \<Rightarrow> (string \<rightharpoonup> stats)
     \<Rightarrow> error + (string \<rightharpoonup> stats)" where
  "api_loop w [] results = Inr results"
| "api_loop w ((k, endpoint) # rest) results =
     (case api_runs (w k) [0..<10] ([], 0) of
        (durations, success_count) \<Rightarrow>
          if durations \<noteq> [] then
            (case api_entry durations success_count of
               Inl e \<Rightarrow> Inl e
             | Inr entry \<Rightarrow> api_loop w rest (results(endpoint \<mapsto> entry)))
          else api_loop w rest results)"

definition benchmark_api_performance ::
  "(nat \<Rightarrow> nat \<Rightarrow> unit run) \<Rightarrow> error + (string \<rightharpoonup> stats)" where
  "benchmark_api_performance w = api_loop w (enumerate 0 api_tests) Map.empty"

subsection \<open>benchmark\_cache\_performance\<close>

definition cache_queries :: "string list" where
  "cache_queries = [''cache_hit_test'', ''cache_miss_test'']"

text \<open>Each query is executed twice, outside every \<open>try\<close>.\<close>

fun cache_loop ::
  "(string \<Rightarrow> unit run \<times> unit run) \<Rightarrow> string list \<Rightarrow> (string \<rightharpoonup> stats)
     \<Rightarrow> error + (string \<rightharpoonup> stats)" where
  "cache_loop w [] results = Inr results"
| "cache_loop w (query_name # rest) results =
     (case w query_name of
        (Failed e, second) \<Rightarrow> Inl e
      | (Completed st1 en1 u1, Failed e) \<Rightarrow> Inl e
      | (Completed st1 en1 u1, Completed st2 en2 u2) \<Rightarrow>
          (let first_run_ms = (en1 - st1) * 1000;
               second_run_ms = (en2 - st2) * 1000
           in bind_res (if first_run_ms > 0
                        then bind_res (py_div (first_run_ms - second_run_ms) first_run_ms)
                               (\<lambda>q. Inr (q * 100))
                        else Inr 0) (\<lambda>cache_effectiveness.
              cache_loop w rest
                (results(query_name \<mapsto> [''first_run_ms'' \<mapsto> first_run_ms,
                                         ''second_run_ms'' \<mapsto> second_run_ms,
                                         ''cache_effectiveness'' \<mapsto> cache_effectiveness])))))"

definition benchmark_cache_performance ::
  "error + unit \<Rightarrow> (string \<Rightarrow> unit run \<times> unit run) \<Rightarrow> error + (string \<rightharpoonup> stats)" where
  "benchmark_cache_performance connect w =
     (case connect of
        Inl e \<Rightarrow> Inl e
      | Inr u \<Rightarrow> cache_loop w cache_queries Map.empty)"

subsection \<open>The benchmark object, the resource sampler and the summary\<close>

record BenchmarkResult =
  test_name :: string
  duration_ms :: real
  success :: bool
  error_message :: "string option"

record PerformanceMetrics =
  cpu_percent :: real
  memory_mb :: real
  memory_percent :: real
  disk_io_read_mb :: real
  disk_io_write_mb :: real
  network_io_sent_mb :: real
  network_io_recv_mb :: real
  timestamp :: real

text \<open>The two mutable fields of \<open>PerformanceBenchmark\<close>, as \<open>__init__\<close> sets them.\<close>

record benchmark =
  results :: "BenchmarkResult list"
  metrics_history :: "PerformanceMetrics list"

definition init :: benchmark where
  "init = \<lparr>results = [], metrics_history = []\<rparr>"

text \<open>
  The loop of \<open>collect_system_metrics\<close>, one list element per iteration made before the
  duration is over: the reading of that iteration, or the exception it raised. The two
  network fields are set to 0 by the code.
\<close>

fun collect_system_metrics ::
  "(error + PerformanceMetrics) list \<Rightarrow> benchmark \<Rightarrow> benchmark" where
  "collect_system_metrics [] b = b"
| "collect_system_metrics (tick # rest) b =
     (case tick of
        Inl e \<Rightarrow> collect_system_metrics rest b
      | Inr m \<Rightarrow>
          collect_system_metrics rest
            (b\<lparr>metrics_history := metrics_history b @
                 [m\<lparr>network_io_sent_mb := 0, network_io_recv_mb := 0\<rparr>]\<rparr>))"

definition generate_summary :: "benchmark \<Rightarrow> error + stats" where
  "generate_summary b =
     (if results b = [] then Inr Map.empty
      else
        let all_durations = map duration_ms (filter success (results b));
            successful = length (filter success (results b))
        in bind_res (py_div (real successful) (real (length (results b)))) (\<lambda>success_rate.
           bind_res (if all_durations \<noteq> [] then py_mean all_durations else Inr 0) (\<lambda>average.
           bind_res (if all_durations \<noteq> [] then py_median all_durations else Inr 0) (\<lambda>median.
           bind_res (if all_durations \<noteq> [] then py_max all_durations else Inr 0) (\<lambda>mx.
           bind_res (if all_durations \<noteq> [] then py_min all_durations else Inr 0) (\<lambda>mn.
             let summary =
                   [''total_tests'' \<mapsto> real (length (results b)),
                    ''successful_tests'' \<mapsto> real successful,
                    ''failed_tests'' \<mapsto> real (length (filter (\<lambda>r. \<not> success r) (results b))),
                    ''success_rate'' \<mapsto> success_rate,
                    ''average_response_time_ms'' \<mapsto> average,
                    ''median_response_time_ms'' \<mapsto> median,
                    ''max_response_time_ms'' \<mapsto> mx,
                    ''min_response_time_ms'' \<mapsto> mn]
             in if metrics_history b \<noteq> [] then
                  (let cpu_values = map cpu_percent (metrics_history b);
                       memory_values = map memory_percent (metrics_history b)
                   in bind_res (py_mean cpu_values) (\<lambda>average_cpu.
                      bind_res (py_max cpu_values) (\<lambda>max_cpu.
                      bind_res (py_mean memory_values) (\<lambda>average_memory.
                      bind_res (py_max memory_values) (\<lambda>max_memory.
                      bind_res (py_max (map memory_mb (metrics_history b))) (\<lambda>peak.
                        Inr (summary ++
                             [''average_cpu_percent'' \<mapsto> average_cpu,
                              ''max_cpu_percent'' \<mapsto> max_cpu,
                              ''average_memory_percent'' \<mapsto> average_memory,
                              ''max_memory_percent'' \<mapsto> max_memory,
                              ''peak_memory_mb'' \<mapsto> peak])))))))
                else Inr summary))))))"

definition general_recommendations :: "string list" where
  "general_recommendations =
     [''Implement comprehensive monitoring and alerting'',
      ''Regular performance testing and regression detection'',
      ''Database query optimization and indexing review'',
      ''API response compression and caching strategies'',
      ''Frontend code splitting and lazy loading'']"

definition generate_recommendations :: "benchmark \<Rightarrow> error + string list" where
  "generate_recommendations b =
     bind_res
       (if results b \<noteq> [] then
          bind_res (py_mean (map duration_ms (filter success (results b)))) (\<lambda>avg_response.
            Inr ((if avg_response > 500
                  then [''High average response time detected - consider optimizing database queries and API endpoints'']
                  else []) @
                 (if avg_response > 1000
                  then [''Very high response times - implement aggressive caching strategies'']
                  else [])))
        else Inr []) (\<lambda>r1.
     bind_res
       (if metrics_history b \<noteq> [] then
          bind_res (py_mean (map memory_percent (metrics_history b))) (\<lambda>avg_memory.
          bind_res (py_max (map memory_percent (metrics_history b))) (\<lambda>max_memory.
            Inr ((if avg_memory > 70
                  then [''High memory usage - implement memory optimization and leak detection'']
                  else []) @
                 (if max_memory > 90
                  then [''Critical memory usage - immediate optimization required'']
                  else []))))
        else Inr []) (\<lambda>r2.
     Inr (r1 @ r2 @ general_recommendations)))"

subsection \<open>run\_comprehensive\_benchmark\<close>

text \<open>Everything one run reads from the outside.\<close>

record world =
  db_connect :: "error + unit"
  db_world :: "string \<Rightarrow> nat \<Rightarrow> nat run"
  api_world :: "nat \<Rightarrow> nat \<Rightarrow> unit run"
  cache_connect :: "error + unit"
  cache_world :: "string \<Rightarrow> unit run \<times> unit run"
  load_world :: "nat \<Rightarrow> level_run"
  ticks :: "(error + PerformanceMetrics) list"

record report =
  database_performance :: "string \<rightharpoonup> stats"
  api_performance :: "string \<rightharpoonup> stats"
  cache_performance :: "string \<rightharpoonup> stats"
  load_performance :: "nat \<rightharpoonup> stats"
  system_metrics :: "PerformanceMetrics list"
  summary :: stats
  recommendations :: "string list"

text \<open>
  The coroutines are awaited one after the other, each to its end. The result is the
  report, or the exception that left the function, together with the benchmark object as
  the run leaves it. The warm-up (which catches its own exceptions and changes nothing),
  the timestamp, and the saving and charting of the finished report are left out.
\<close>

definition run_comprehensive_benchmark :: "world \<Rightarrow> benchmark \<Rightarrow> (error + report) \<times> benchmark" where
  "run_comprehensive_benchmark w b =
     (case benchmark_database_performance (db_connect w) (db_world w) of
        Inl e \<Rightarrow> (Inl e, b)
      | Inr db_results \<Rightarrow>
     (case benchmark_api_performance (api_world w) of
        Inl e \<Rightarrow> (Inl e, b)
      | Inr api_results \<Rightarrow>
     (case benchmark_cache_performance (cache_connect w) (cache_world w) of
        Inl e \<Rightarrow> (Inl e, b)
      | Inr cache_results \<Rightarrow>
     (case benchmark_load_performance (load_world w) of
        Inl e \<Rightarrow> (Inl e, b)
      | Inr load_results \<Rightarrow>
     (let b' = collect_system_metrics (ticks w) b in
      (bind_res (generate_summary b') (\<lambda>summary'.
       bind_res (generate_recommendations b') (\<lambda>recommendations'.
         Inr \<lparr>database_performance = db_results,
              api_performance = api_results,
              cache_performance = cache_results,
              load_performance = load_results,
              system_metrics = metrics_history b',
              summary = summary',
              recommendations = recommendations'\<rparr>)), b'))))))"

subsection \<open>compare\_with\_baseline\<close>

record change =
  baseline :: real
  current :: real
  change_percent :: real

datatype severity = High | Medium

record regression =
  regression_metric :: string
  regression_severity :: severity
  regression_change_percent :: real

record improvement =
  improvement_metric :: string
  improvement_percent :: real

record comparison =
  performance_changes :: "string \<rightharpoonup> change"
  regressions_detected :: "regression list"
  improvements_detected :: "improvement list"

definition metrics_to_compare :: "string list" where
  "metrics_to_compare = [''average_response_time_ms'', ''success_rate'',
                         ''average_cpu_percent'', ''average_memory_percent'']"

text \<open>
  Double precision: \<open>fl x\<close> is the double nearest to \<open>x\<close>, ties to the even
  significand (53 bits; the exponent range is not bounded).
\<close>

definition round_even :: "real \<Rightarrow> int" where
  "round_even x =
     (let f = \<lfloor>x\<rfloor>; d = x - of_int f in
      if d < 1 / 2 then f
      else if 1 / 2 < d then f + 1
      else if even f then f else f + 1)"

definition fl :: "real \<Rightarrow> real" where
  "fl x =
     (if x = 0 then 0
      else let e = \<lfloor>log 2 \<bar>x\<bar>\<rfloor>
           in of_int (round_even (x / 2 powr (of_int e - 52))) * 2 powr (of_int e - 52))"

definition fsub :: "real \<Rightarrow> real \<Rightarrow> real" where
  "fsub a b = fl (a - b)"

definition fmul :: "real \<Rightarrow> real \<Rightarrow> real" where
  "fmul a b = fl (a * b)"

definition fdiv :: "real \<Rightarrow> real \<Rightarrow> error + real" where
  "fdiv a b = (if b = 0 then Inl ZeroDivisionError else Inr (fl (a / b)))"

text \<open>
  \<open>d.get(key, 0)\<close> on a dict of numbers. The number read is a double: the one that
  parsing the baseline file, or the division that ends \<open>statistics.mean\<close> and the
  success rate, rounds the exact value to.
\<close>

definition get0 :: "stats \<Rightarrow> string \<Rightarrow> real" where
  "get0 d k = (case d k of Some v \<Rightarrow> fl v | None \<Rightarrow> 0)"

text \<open>The body of the loop over \<open>metrics_to_compare\<close>.\<close>

definition compare_metric :: "stats \<Rightarrow> stats \<Rightarrow> string \<Rightarrow> comparison \<Rightarrow> error + comparison" where
  "compare_metric current_summary baseline_summary metric c =
     (let current_value = get0 current_summary metric;
          baseline_value = get0 baseline_summary metric
      in if baseline_value > 0 then
           bind_res (fdiv (fsub current_value baseline_value) baseline_value) (\<lambda>q.
             let change_percent = fmul q 100;
                 c1 = c\<lparr>performance_changes := (performance_changes c)(metric \<mapsto>
                          \<lparr>baseline = baseline_value, current = current_value,
                           change_percent = change_percent\<rparr>)\<rparr>;
                 c2 = (if change_percent > 10 then
                         (if metric \<in> set [''average_response_time_ms'', ''average_cpu_percent'',
                                            ''average_memory_percent'']
                          then c1\<lparr>regressions_detected := regressions_detected c1 @
                                   [\<lparr>regression_metric = metric,
                                     regression_severity =
                                       (if change_percent > 50 then High else Medium),
                                     regression_change_percent = change_percent\<rparr>]\<rparr>
                          else c1)
                       else c1);
                 c3 = (if change_percent < - 10 then
                         (if metric \<in> set [''average_response_time_ms'']
                             \<or> (metric = ''success_rate'' \<and> change_percent < - 10)
                          then c2\<lparr>improvements_detected := improvements_detected c2 @
                                   [\<lparr>improvement_metric = metric,
                                     improvement_percent = \<bar>change_percent\<bar>\<rparr>]\<rparr>
                          else c2)
                       else c2)
             in Inr c3)
         else Inr c)"

fun compare_loop :: "stats \<Rightarrow> stats \<Rightarrow> string list \<Rightarrow> comparison \<Rightarrow> error + comparison" where
  "compare_loop cur bas [] c = Inr c"
| "compare_loop cur bas (metric # rest) c =
     (case compare_metric cur bas metric c of
        Inl e \<Rightarrow> Inl e
      | Inr c' \<Rightarrow> compare_loop cur bas rest c')"

text \<open>
  \<open>baseline_file\<close> is the outcome of opening and parsing the file: the exception, or the
  dict \<open>baseline.get('summary', {})\<close> (numeric values only). The whole body is in a
  \<open>try\<close>: \<open>Inl e\<close> is the returned dict \<open>{"error": str(e)}\<close>. The two timestamps of the
  comparison are left out.
\<close>

definition compare_with_baseline :: "benchmark \<Rightarrow> error + stats \<Rightarrow> error + comparison" where
  "compare_with_baseline b baseline_file =
     (case baseline_file of
        Inl e \<Rightarrow> Inl e
      | Inr baseline_summary \<Rightarrow>
          bind_res (generate_summary b) (\<lambda>current_summary.
            compare_loop current_summary baseline_summary metrics_to_compare
              \<lparr>performance_changes = Map.empty,
               regressions_detected = [],
               improvements_detected = []\<rparr>))"

subsection \<open>Notions used to state the properties\<close>

text \<open>The durations (in ms) of the repetitions that completed, in order.\<close>

fun completed_durations :: "(nat \<Rightarrow> 'a run) \<Rightarrow> nat list \<Rightarrow> real list" where
  "completed_durations r [] = []"
| "completed_durations r (i # rest) =
     (case r i of
        Completed st en x \<Rightarrow> (en - st) * 1000 # completed_durations r rest
      | Failed e \<Rightarrow> completed_durations r rest)"

text \<open>
  The standard deviation as the specification words it: the sample (\<open>n - 1\<close>) standard
  deviation of at least two samples, and 0 otherwise.
\<close>

definition sample_stddev :: "real list \<Rightarrow> real" where
  "sample_stddev xs =
     (if 2 \<le> length xs
      then sqrt ((\<Sum>x\<leftarrow>xs. (x - sum_list xs / real (length xs))\<^sup>2) / (real (length xs) - 1))
      else 0)"


text \<open>
  The percent change as the comparison computes it: a subtraction, a division and a
  multiplication, each rounded to a double.
\<close>

definition pct :: "real \<Rightarrow> real \<Rightarrow> real" where
  "pct cv bv = fl (fl (fl (cv - bv) / bv) * 100)"

subsection \<open>Concrete inputs\<close>

text \<open>A session each of whose actions raises, and a load level made of such sessions.\<close>

definition broken_session :: session_run where
  "broken_session = \<lparr>session_start = 0, session_end = 1, perform = (\<lambda>a. Inl OSError)\<rparr>"

definition broken_level :: level_run where
  "broken_level = \<lparr>start_time = 0, end_time = 2, sessions = (\<lambda>i. broken_session)\<rparr>"

text \<open>A database each of whose queries raises at every execution.\<close>

definition failing_db :: "string \<Rightarrow> nat \<Rightarrow> nat run" where
  "failing_db = (\<lambda>q i. Failed OperationalError)"

text \<open>
  A database where only the first execution of each query completes (in 10 ms), and an
  API each of whose calls completes in 10 ms.
\<close>

definition single_db :: "string \<Rightarrow> nat \<Rightarrow> nat run" where
  "single_db = (\<lambda>q i. if i = 0 then Completed 0 (1 / 100) 7 else Failed OperationalError)"

definition steady_api :: "nat \<Rightarrow> nat \<Rightarrow> unit run" where
  "steady_api = (\<lambda>k i. Completed 0 (1 / 100) ())"

text \<open>A world in which every category completes and the sampler takes two snapshots.\<close>

definition steady_session :: session_run where
  "steady_session = \<lparr>session_start = 0, session_end = 1, perform = (\<lambda>a. Inr ())\<rparr>"

definition snapshot :: PerformanceMetrics where
  "snapshot = \<lparr>cpu_percent = 5, memory_mb = 64, memory_percent = 1, disk_io_read_mb = 0,
     disk_io_write_mb = 0, network_io_sent_mb = 0, network_io_recv_mb = 0, timestamp = 0\<rparr>"

definition steady_world :: world where
  "steady_world =
     \<lparr>db_connect = Inr (), db_world = single_db, api_world = steady_api,
      cache_connect = Inr (),
      cache_world = (\<lambda>q. (Completed 0 (1 / 100) (), Completed 0 (1 / 200) ())),
      load_world = (\<lambda>users. \<lparr>start_time = 0, end_time = 1, sessions = (\<lambda>i. steady_session)\<rparr>),
      ticks = [Inr snapshot, Inl OSError, Inr snapshot]\<rparr>"

text \<open>
  Benchmark objects whose result list holds one successful measurement of a given
  duration, and one successful and one failed measurement.
\<close>

definition measured :: "real \<Rightarrow> benchmark" where
  "measured d = \<lparr>results = [\<lparr>test_name = ''query'', duration_ms = d, success = True,
                               error_message = None\<rparr>],
                 metrics_history = []\<rparr>"

definition half_failed :: benchmark where
  "half_failed = \<lparr>results = [\<lparr>test_name = ''first'', duration_ms = 10, success = True,
                                error_message = None\<rparr>,
                              \<lparr>test_name = ''second'', duration_ms = 0, success = False,
                                error_message = Some ''failed''\<rparr>],
                  metrics_history = []\<rparr>"


text \<open>
  A database where every execution of \<open>count_query\<close> raises and every other execution
  completes, the world that differs from the steady one in this database only, and a
  database where the first two executions of each query complete, in 10 and in 14 ms.
\<close>

definition partial_db :: "string \<Rightarrow> nat \<Rightarrow> nat run" where
  "partial_db = (\<lambda>q i. if q = ''count_query'' then Failed OperationalError
                         else Completed 0 (1 / 100) 7)"

definition partial_world :: world where
  "partial_world = steady_world\<lparr>db_world := partial_db\<rparr>"


section \<open>Properties\<close>

subsection \<open>The load simulator\<close>

lemma run_actions_returns: "run_actions act as = Inr ()"
  by (induction as) (auto split: sum.splits)

lemma simulate_user_session_returns:
  "simulate_user_session s = Inr ((session_end s - session_start s) * 1000)"
  by (simp add: simulate_user_session_def run_actions_returns)

lemma gather_sessions:
  "gather (map (\<lambda>i. Inr (g i)) is) = map (\<lambda>i. Number (g i)) is"
  by (simp add: gather_def)

lemma filter_numbers: "filter (\<lambda>r. \<not> is_exception r) (map (\<lambda>i. Number (g i)) is) = map (\<lambda>i. Number (g i)) is"
  by (induction "is") auto

lemma numbers_of_numbers: "numbers_of (map (\<lambda>i. Number (g i)) is) = map g is"
  by (induction "is") auto







text \<open>
  C2, as stated, fails: a session is claimed to count as successful only if each of its
  steps succeeded. Here every action of the single session raises, and the session is
  counted as successful, with a success rate of 1.
\<close>

theorem failed_steps_counted_successful:
  "\<not> (\<forall>a \<in> set actions. perform broken_session a = Inr ())
   \<and> map_sum id (\<lambda>e. (e ''successful_sessions'', e ''success_rate''))
       (load_level 1 broken_level) = Inr (Some 1, Some 1)"
  by (auto simp add: load_level_def Let_def simulate_user_session_returns gather_def
      py_div_def py_mean_def bind_res_def broken_level_def broken_session_def actions_def)

text \<open>
  C2, amended: a session returns its duration whatever its actions do, since every
  exception of an action is swallowed; so a load level that computes its entry counts
  each of its sessions as successful and reports a success rate of 1.
\<close>

theorem every_session_counted_successful:
  "simulate_user_session s = Inr ((session_end s - session_start s) * 1000) \<and>
   (end_time lv \<noteq> start_time lv \<longrightarrow>
     (\<exists>entry. load_level (Suc n) lv = Inr entry
        \<and> entry ''successful_sessions'' = Some (real (Suc n))
        \<and> entry ''success_rate'' = Some 1))"
  by (simp add: load_level_def Let_def simulate_user_session_returns gather_sessions
      filter_numbers numbers_of_numbers py_div_def py_mean_def bind_res_def del: upt_Suc)

theorem every_session_counted_successful_witness:
  "end_time broken_level \<noteq> start_time broken_level \<and>
   (\<exists>entry. load_level (Suc 0) broken_level = Inr entry
      \<and> entry ''successful_sessions'' = Some 1
      \<and> entry ''success_rate'' = Some 1)"
  using every_session_counted_successful [of broken_session broken_level 0]
  by (simp add: broken_level_def)

subsection \<open>Statistics of a benchmarked query\<close>

lemma py_mean_eq: "xs \<noteq> [] \<Longrightarrow> py_mean xs = Inr (sum_list xs / real (length xs))"
  by (simp add: py_mean_def)

lemma sort_Nil_iff: "sort xs = [] \<longleftrightarrow> xs = []"
  by (metis length_sort length_0_conv)

lemma py_min_eq: "xs \<noteq> [] \<Longrightarrow> py_min xs = Inr (Min (set xs))"
proof (cases xs)
  case Nil
  assume "xs \<noteq> []"
  with Nil show ?thesis by simp
next
  case (Cons a list)
  then show ?thesis using Min.set_eq_fold[of a list] by (simp add: py_min_def)
qed

lemma py_max_eq: "xs \<noteq> [] \<Longrightarrow> py_max xs = Inr (Max (set xs))"
proof (cases xs)
  case Nil
  assume "xs \<noteq> []"
  with Nil show ?thesis by simp
next
  case (Cons a list)
  then show ?thesis using Max.set_eq_fold[of a list] by (simp add: py_max_def)
qed

lemma py_median_Inr: "xs \<noteq> [] \<Longrightarrow> py_median xs = Inr (projr (py_median xs))"
  by (simp add: py_median_def Let_def sort_Nil_iff)

lemma sorted_nth_bounds:
  assumes "i < length xs"
  shows "Min (set xs) \<le> sort xs ! i" and "sort xs ! i \<le> Max (set xs)"
proof -
  have "sort xs ! i \<in> set (sort xs)" using assms by (intro nth_mem) simp
  then have m: "sort xs ! i \<in> set xs" by simp
  show "Min (set xs) \<le> sort xs ! i" using m by (intro Min_le) auto
  show "sort xs ! i \<le> Max (set xs)" using m by (intro Max_ge) auto
qed

lemma py_median_bounds:
  assumes "xs \<noteq> []"
  shows "Min (set xs) \<le> projr (py_median xs) \<and> projr (py_median xs) \<le> Max (set xs)"
proof -
  have n: "0 < length xs" using assms by simp
  then have a: "length xs div 2 < length xs" and b: "length xs div 2 - 1 < length xs"
    by arith+
  note A = sorted_nth_bounds[OF a] and B = sorted_nth_bounds[OF b]
  show ?thesis
    using assms A B by (auto simp add: py_median_def Let_def sort_Nil_iff)
qed

lemma sum_list_lower: "(\<forall>x\<in>set xs. a \<le> x) \<Longrightarrow> real (length xs) * a \<le> sum_list xs"
  by (induction xs) (auto simp add: algebra_simps)

lemma sum_list_upper: "(\<forall>x\<in>set xs. x \<le> a) \<Longrightarrow> sum_list xs \<le> real (length xs) * a"
  by (induction xs) (auto simp add: algebra_simps)

lemma mean_bounds:
  assumes "xs \<noteq> []"
  shows "Min (set xs) \<le> sum_list xs / real (length xs)"
    and "sum_list xs / real (length xs) \<le> Max (set xs)"
proof -
  have n: "0 < real (length xs)" using assms by simp
  have "real (length xs) * Min (set xs) \<le> sum_list xs"
    by (rule sum_list_lower) simp
  then show "Min (set xs) \<le> sum_list xs / real (length xs)"
    using n by (simp add: pos_le_divide_eq mult.commute)
  have "sum_list xs \<le> real (length xs) * Max (set xs)"
    by (rule sum_list_upper) simp
  then show "sum_list xs / real (length xs) \<le> Max (set xs)"
    using n by (simp add: pos_divide_le_eq mult.commute)
qed

lemma py_stdev_eq: "1 < length xs \<Longrightarrow> py_stdev xs = Inr (sample_stddev xs)"
  by (simp add: py_stdev_def sample_stddev_def Let_def)

lemma sample_stddev_nonneg: "0 \<le> sample_stddev xs"
  by (auto simp add: sample_stddev_def intro!: divide_nonneg_nonneg sum_list_nonneg)

lemma db_entry_eq:
  assumes "durations \<noteq> []"
  shows "db_entry durations success_count rows =
     Inr [''average_ms'' \<mapsto> sum_list durations / real (length durations),
          ''median_ms'' \<mapsto> projr (py_median durations),
          ''min_ms'' \<mapsto> Min (set durations),
          ''max_ms'' \<mapsto> Max (set durations),
          ''std_dev_ms'' \<mapsto> sample_stddev durations,
          ''success_rate'' \<mapsto> real success_count / 10,
          ''rows_returned'' \<mapsto> (case rows of Some n \<Rightarrow> real n | None \<Rightarrow> 0)]"
proof -
  have sd: "(if length durations > 1 then py_stdev durations else Inr 0) = Inr (sample_stddev durations)"
    by (simp add: py_stdev_eq) (simp add: sample_stddev_def)
  obtain m where m: "py_median durations = Inr m"
    using py_median_Inr[OF assms] by metis
  show ?thesis
    unfolding db_entry_def sd
    using assms m
    by (simp add: bind_res_def py_mean_eq py_min_eq py_max_eq py_div_def)
qed

lemma api_entry_eq:
  assumes "durations \<noteq> []"
  shows "api_entry durations success_count =
     Inr [''average_ms'' \<mapsto> sum_list durations / real (length durations),
          ''median_ms'' \<mapsto> projr (py_median durations),
          ''min_ms'' \<mapsto> Min (set durations),
          ''max_ms'' \<mapsto> Max (set durations),
          ''success_rate'' \<mapsto> real success_count / 10]"
proof -
  obtain m where m: "py_median durations = Inr m"
    using py_median_Inr[OF assms] by metis
  show ?thesis
    unfolding api_entry_def
    using assms m
    by (simp add: bind_res_def py_mean_eq py_min_eq py_max_eq py_div_def)
qed

lemma db_runs_eq:
  "\<exists>rows'. db_runs r is (d, c, rows) =
     (d @ completed_durations r is, c + length (completed_durations r is), rows')"
proof (induction "is" arbitrary: d c rows)
  case Nil
  then show ?case by simp
next
  case (Cons i rest)
  show ?case
  proof (cases "r i")
    case (Completed st en n)
    from Cons.IH[of "d @ [(en - st) * 1000]" "c + 1" "Some n"]
    obtain rows' where
      "db_runs r rest (d @ [(en - st) * 1000], c + 1, Some n) =
         ((d @ [(en - st) * 1000]) @ completed_durations r rest,
          c + 1 + length (completed_durations r rest), rows')"
      by blast
    then show ?thesis using Completed by simp
  next
    case (Failed e)
    then show ?thesis using Cons.IH[of d c rows] by simp
  qed
qed

lemma api_runs_eq:
  "api_runs r is (d, c) = (d @ completed_durations r is, c + length (completed_durations r is))"
proof (induction "is" arbitrary: d c)
  case Nil
  then show ?case by simp
next
  case (Cons i rest)
  show ?case
  proof (cases "r i")
    case (Completed st en n)
    then show ?thesis
      using Cons.IH[of "d @ [(en - st) * 1000]" "c + 1"] by simp
  next
    case (Failed e)
    then show ?thesis using Cons.IH[of d c] by simp
  qed
qed

lemma completed_durations_length: "length (completed_durations r is) \<le> length is"
  by (induction "is") (auto split: run.splits)

lemma db_loop_entry:
  assumes "db_loop w qs (res, rows) = Inr (res', rows')" and "res' q = Some e"
  shows "res q = Some e \<or>
         (q \<in> set qs \<and> completed_durations (w q) [0..<10] \<noteq> [] \<and>
          (\<exists>r. db_entry (completed_durations (w q) [0..<10])
                  (length (completed_durations (w q) [0..<10])) r = Inr e))"
  using assms
proof (induction qs arbitrary: res rows)
  case Nil
  then show ?case by simp
next
  case (Cons a qs)
  obtain r1 where runs: "db_runs (w a) [0..<10] ([], 0, rows) =
      (completed_durations (w a) [0..<10], length (completed_durations (w a) [0..<10]), r1)"
    using db_runs_eq[of "w a" "[0..<10]" "[]" 0 rows] by auto
  show ?case
  proof (cases "completed_durations (w a) [0..<10] = []")
    case True
    then have "db_loop w qs (res, r1) = Inr (res', rows')"
      using Cons.prems(1) runs by simp
    from Cons.IH[OF this Cons.prems(2)] show ?thesis by auto
  next
    case False
    then obtain entry where
      ent: "db_entry (completed_durations (w a) [0..<10])
              (length (completed_durations (w a) [0..<10])) r1 = Inr entry"
      and rest: "db_loop w qs (res(a \<mapsto> entry), r1) = Inr (res', rows')"
      using Cons.prems(1) runs by (auto split: sum.splits)
    from Cons.IH[OF rest Cons.prems(2)] show ?thesis
      using False ent by (auto split: if_splits)
  qed
qed

lemma db_loop_returns: "\<exists>acc. db_loop w qs (res, rows) = Inr acc"
proof (induction qs arbitrary: res rows)
  case Nil
  then show ?case by simp
next
  case (Cons a qs)
  obtain r1 where runs: "db_runs (w a) [0..<10] ([], 0, rows) =
      (completed_durations (w a) [0..<10], length (completed_durations (w a) [0..<10]), r1)"
    using db_runs_eq[of "w a" "[0..<10]" "[]" 0 rows] by auto
  show ?case
    using runs Cons.IH by (simp add: db_entry_eq)
qed

lemma completed_durations_all_failed:
  "(\<forall>i\<in>set is. \<exists>e. r i = Failed e) \<Longrightarrow> completed_durations r is = []"
  by (induction "is") auto

text \<open>
  C3, as stated, fails: a query all of whose repetitions fail is claimed to be recorded
  with a success rate of 0. When every execution of every query raises, the benchmark
  returns, and its result has no entry at all.
\<close>

theorem all_failed_queries_not_recorded:
  "benchmark_database_performance (Inr ()) failing_db = Inr Map.empty"
  by (simp add: benchmark_database_performance_def queries_def failing_db_def
      upt_rec[of _ 10] numeral_eq_Suc)

lemma api_loop_entry:
  assumes "api_loop w ts res = Inr res'" and "res' ep = Some e"
  shows "res ep = Some e \<or>
         (\<exists>k. (k, ep) \<in> set ts \<and> completed_durations (w k) [0..<10] \<noteq> [] \<and>
            api_entry (completed_durations (w k) [0..<10])
              (length (completed_durations (w k) [0..<10])) = Inr e)"
  using assms
proof (induction ts arbitrary: res)
  case Nil
  then show ?case by simp
next
  case (Cons t ts)
  obtain k a where t: "t = (k, a)" by (cases t)
  have runs: "api_runs (w k) [0..<10] ([], 0) =
      (completed_durations (w k) [0..<10], length (completed_durations (w k) [0..<10]))"
    using api_runs_eq[of "w k" "[0..<10]" "[]" 0] by simp
  show ?case
  proof (cases "completed_durations (w k) [0..<10] = []")
    case True
    then have "api_loop w ts res = Inr res'"
      using Cons.prems(1) runs t by simp
    from Cons.IH[OF this Cons.prems(2)] show ?thesis by auto
  next
    case False
    then obtain entry where
      ent: "api_entry (completed_durations (w k) [0..<10])
              (length (completed_durations (w k) [0..<10])) = Inr entry"
      and rest: "api_loop w ts (res(a \<mapsto> entry)) = Inr res'"
      using Cons.prems(1) runs t by (auto split: sum.splits)
    from Cons.IH[OF rest Cons.prems(2)] show ?thesis
      using False ent t by (auto split: if_splits)
  qed
qed

lemma db_results_entry:
  assumes "benchmark_database_performance connect w = Inr res" and "res q = Some e"
  shows "completed_durations (w q) [0..<10] \<noteq> [] \<and>
          (\<exists>r. db_entry (completed_durations (w q) [0..<10])
                  (length (completed_durations (w q) [0..<10])) r = Inr e)"
proof -
  obtain rows where "db_loop w queries (Map.empty, None) = Inr (res, rows)"
    using assms(1)
    by (auto simp add: benchmark_database_performance_def split: sum.splits)
  from db_loop_entry[OF this assms(2)] show ?thesis by simp
qed


lemma single_db_result:
  "\<exists>res e. benchmark_database_performance (Inr ()) single_db = Inr res
      \<and> res ''count_query'' = Some e"
  by (simp add: benchmark_database_performance_def queries_def single_db_def
      upt_rec[of _ 10] numeral_eq_Suc db_entry_eq)


lemma api_results_entry:
  assumes "benchmark_api_performance w = Inr res" and "res ep = Some e"
  shows "\<exists>k. completed_durations (w k) [0..<10] \<noteq> [] \<and>
            api_entry (completed_durations (w k) [0..<10])
              (length (completed_durations (w k) [0..<10])) = Inr e"
  using api_loop_entry[OF assms(1)[unfolded benchmark_api_performance_def] assms(2)]
  by auto

lemma success_rate_bounds:
  assumes "completed_durations r [0..<10] \<noteq> []"
  shows "1 / 10 \<le> real (length (completed_durations r [0..<10])) / 10"
    and "real (length (completed_durations r [0..<10])) / 10 \<le> 1"
proof -
  have "length (completed_durations r [0..<10]) \<le> 10"
    using completed_durations_length[of r "[0..<10]"] by simp
  then show "real (length (completed_durations r [0..<10])) / 10 \<le> 1" by simp
  have "1 \<le> length (completed_durations r [0..<10])"
    using assms by (cases "completed_durations r [0..<10]") simp_all
  then show "1 / 10 \<le> real (length (completed_durations r [0..<10])) / 10" by simp
qed

lemma db_entry_well_formed:
  assumes "benchmark_database_performance connect w = Inr res" and "res q = Some e"
  shows "\<exists>avg med mn mx sd rate.
           e ''average_ms'' = Some avg \<and> e ''median_ms'' = Some med \<and>
           e ''min_ms'' = Some mn \<and> e ''max_ms'' = Some mx \<and>
           e ''std_dev_ms'' = Some sd \<and> e ''success_rate'' = Some rate \<and>
           mn \<le> med \<and> med \<le> mx \<and> mn \<le> avg \<and> avg \<le> mx \<and> 0 \<le> sd \<and>
           1 / 10 \<le> rate \<and> rate \<le> 1"
proof -
  from db_results_entry[OF assms] obtain r where
    ne: "completed_durations (w q) [0..<10] \<noteq> []" and
    ent: "db_entry (completed_durations (w q) [0..<10])
            (length (completed_durations (w q) [0..<10])) r = Inr e"
    by blast
  note eq = ent[unfolded db_entry_eq[OF ne], simplified, symmetric]
  let ?d = "completed_durations (w q) [0..<10]"
  have f1: "e ''average_ms'' = Some (sum_list ?d / real (length ?d))" by (subst eq) simp
  have f2: "e ''median_ms'' = Some (projr (py_median ?d))" by (subst eq) simp
  have f3: "e ''min_ms'' = Some (Min (set ?d))" by (subst eq) simp
  have f4: "e ''max_ms'' = Some (Max (set ?d))" by (subst eq) simp
  have f5: "e ''std_dev_ms'' = Some (sample_stddev ?d)" by (subst eq) simp
  have f6: "e ''success_rate'' = Some (real (length ?d) / 10)" by (subst eq) simp
  show ?thesis
    using f1 f2 f3 f4 f5 f6 py_median_bounds[OF ne] mean_bounds[OF ne]
      success_rate_bounds[OF ne] sample_stddev_nonneg[of ?d]
    by blast
qed

lemma api_entry_well_formed:
  assumes "benchmark_api_performance w = Inr res" and "res ep = Some e"
  shows "\<exists>avg med mn mx rate.
           e ''average_ms'' = Some avg \<and> e ''median_ms'' = Some med \<and>
           e ''min_ms'' = Some mn \<and> e ''max_ms'' = Some mx \<and>
           e ''success_rate'' = Some rate \<and> e ''std_dev_ms'' = None \<and>
           mn \<le> med \<and> med \<le> mx \<and> mn \<le> avg \<and> avg \<le> mx \<and>
           1 / 10 \<le> rate \<and> rate \<le> 1"
proof -
  from api_results_entry[OF assms] obtain k where
    ne: "completed_durations (w k) [0..<10] \<noteq> []" and
    ent: "api_entry (completed_durations (w k) [0..<10])
            (length (completed_durations (w k) [0..<10])) = Inr e"
    by blast
  note eq = ent[unfolded api_entry_eq[OF ne], simplified, symmetric]
  let ?d = "completed_durations (w k) [0..<10]"
  have f1: "e ''average_ms'' = Some (sum_list ?d / real (length ?d))" by (subst eq) simp
  have f2: "e ''median_ms'' = Some (projr (py_median ?d))" by (subst eq) simp
  have f3: "e ''min_ms'' = Some (Min (set ?d))" by (subst eq) simp
  have f4: "e ''max_ms'' = Some (Max (set ?d))" by (subst eq) simp
  have f5: "e ''std_dev_ms'' = None" by (subst eq) simp
  have f6: "e ''success_rate'' = Some (real (length ?d) / 10)" by (subst eq) simp
  show ?thesis
    using f1 f2 f3 f4 f5 f6 py_median_bounds[OF ne] mean_bounds[OF ne]
      success_rate_bounds[OF ne]
    by blast
qed

lemma steady_api_result:
  "\<exists>res e. benchmark_api_performance steady_api = Inr res
      \<and> res ''/api/analysis/hot_numbers'' = Some e"
  by (simp add: benchmark_api_performance_def api_tests_def steady_api_def
      upt_rec[of _ 10] numeral_eq_Suc api_entry_eq)

lemma db_loop_keeps:
  assumes "db_loop w qs (res, rows) = Inr (res', rows')" and "res q \<noteq> None"
  shows "res' q \<noteq> None"
  using assms
proof (induction qs arbitrary: res rows)
  case Nil
  then show ?case by simp
next
  case (Cons a qs)
  obtain r1 where runs: "db_runs (w a) [0..<10] ([], 0, rows) =
      (completed_durations (w a) [0..<10], length (completed_durations (w a) [0..<10]), r1)"
    using db_runs_eq[of "w a" "[0..<10]" "[]" 0 rows] by auto
  show ?case
  proof (cases "completed_durations (w a) [0..<10] = []")
    case True
    then have "db_loop w qs (res, r1) = Inr (res', rows')"
      using Cons.prems(1) runs by simp
    from Cons.IH[OF this Cons.prems(2)] show ?thesis .
  next
    case False
    then obtain entry where
      rest: "db_loop w qs (res(a \<mapsto> entry), r1) = Inr (res', rows')"
      using Cons.prems(1) runs by (auto split: sum.splits)
    have "(res(a \<mapsto> entry)) q \<noteq> None" using Cons.prems(2) by simp
    from Cons.IH[OF rest this] show ?thesis .
  qed
qed

lemma db_loop_present:
  assumes "db_loop w qs (res, rows) = Inr (res', rows')" and "q \<in> set qs"
    and "completed_durations (w q) [0..<10] \<noteq> []"
  shows "res' q \<noteq> None"
  using assms(1,2)
proof (induction qs arbitrary: res rows)
  case Nil
  then show ?case by simp
next
  case (Cons a qs)
  obtain r1 where runs: "db_runs (w a) [0..<10] ([], 0, rows) =
      (completed_durations (w a) [0..<10], length (completed_durations (w a) [0..<10]), r1)"
    using db_runs_eq[of "w a" "[0..<10]" "[]" 0 rows] by auto
  show ?case
  proof (cases "completed_durations (w a) [0..<10] = []")
    case True
    then have rest: "db_loop w qs (res, r1) = Inr (res', rows')"
      using Cons.prems(1) runs by simp
    have "q \<noteq> a" using True assms(3) by auto
    then have "q \<in> set qs" using Cons.prems(2) by simp
    from Cons.IH[OF rest this] show ?thesis .
  next
    case False
    then obtain entry where
      rest: "db_loop w qs (res(a \<mapsto> entry), r1) = Inr (res', rows')"
      using Cons.prems(1) runs by (auto split: sum.splits)
    show ?thesis
    proof (cases "q = a")
      case True
      then have "(res(a \<mapsto> entry)) q \<noteq> None" by simp
      from db_loop_keeps[OF rest this] show ?thesis .
    next
      case False
      then have "q \<in> set qs" using Cons.prems(2) by simp
      from Cons.IH[OF rest this] show ?thesis .
    qed
  qed
qed






text \<open>
  C10, as stated, fails: every entry of the database or API benchmark is claimed to have
  a \<open>std_dev_ms\<close> that is at least 0. An entry of the API benchmark has no
  \<open>std_dev_ms\<close> at all.
\<close>

theorem api_entry_without_std_dev:
  "map_sum id (\<lambda>r. map_option (\<lambda>e. e ''std_dev_ms'') (r ''/api/analysis/hot_numbers''))
     (benchmark_api_performance steady_api) = Inr (Some None)"
  by (simp add: benchmark_api_performance_def api_tests_def steady_api_def
      upt_rec[of _ 10] numeral_eq_Suc api_entry_eq)


text \<open>
  C10, amended: every entry that the database benchmark emits satisfies
  \<open>min_ms \<le> median_ms \<le> max_ms\<close> and \<open>min_ms \<le> average_ms \<le> max_ms\<close>, has
  \<open>std_dev_ms \<ge> 0\<close> and a \<open>success_rate\<close> between 1/10 and 1; every entry that the API
  benchmark emits satisfies the same ordering and has the same bounds on its
  \<open>success_rate\<close>, and carries no \<open>std_dev_ms\<close>.
\<close>

theorem emitted_entries_well_formed:
  "(benchmark_database_performance connect w = Inr res \<and> res q = Some e \<longrightarrow>
      (\<exists>avg med mn mx sd rate.
           e ''average_ms'' = Some avg \<and> e ''median_ms'' = Some med \<and>
           e ''min_ms'' = Some mn \<and> e ''max_ms'' = Some mx \<and>
           e ''std_dev_ms'' = Some sd \<and> e ''success_rate'' = Some rate \<and>
           mn \<le> med \<and> med \<le> mx \<and> mn \<le> avg \<and> avg \<le> mx \<and> 0 \<le> sd \<and>
           1 / 10 \<le> rate \<and> rate \<le> 1))
   \<and> (benchmark_api_performance wa = Inr ares \<and> ares ep = Some ae \<longrightarrow>
      (\<exists>avg med mn mx rate.
           ae ''average_ms'' = Some avg \<and> ae ''median_ms'' = Some med \<and>
           ae ''min_ms'' = Some mn \<and> ae ''max_ms'' = Some mx \<and>
           ae ''success_rate'' = Some rate \<and> ae ''std_dev_ms'' = None \<and>
           mn \<le> med \<and> med \<le> mx \<and> mn \<le> avg \<and> avg \<le> mx \<and>
           1 / 10 \<le> rate \<and> rate \<le> 1))"
  using db_entry_well_formed api_entry_well_formed by blast


theorem emitted_entries_well_formed_witness:
  "(\<exists>res e. benchmark_database_performance (Inr ()) single_db = Inr res
      \<and> res ''count_query'' = Some e
      \<and> (\<exists>avg med mn mx sd rate.
           e ''average_ms'' = Some avg \<and> e ''median_ms'' = Some med \<and>
           e ''min_ms'' = Some mn \<and> e ''max_ms'' = Some mx \<and>
           e ''std_dev_ms'' = Some sd \<and> e ''success_rate'' = Some rate \<and>
           mn \<le> med \<and> med \<le> mx \<and> mn \<le> avg \<and> avg \<le> mx \<and> 0 \<le> sd \<and>
           1 / 10 \<le> rate \<and> rate \<le> 1))
   \<and> (\<exists>res e. benchmark_api_performance steady_api = Inr res
      \<and> res ''/api/analysis/hot_numbers'' = Some e
      \<and> (\<exists>avg med mn mx rate.
           e ''average_ms'' = Some avg \<and> e ''median_ms'' = Some med \<and>
           e ''min_ms'' = Some mn \<and> e ''max_ms'' = Some mx \<and>
           e ''success_rate'' = Some rate \<and> e ''std_dev_ms'' = None \<and>
           mn \<le> med \<and> med \<le> mx \<and> mn \<le> avg \<and> avg \<le> mx \<and>
           1 / 10 \<le> rate \<and> rate \<le> 1))"
proof -
  obtain res e where r: "benchmark_database_performance (Inr ()) single_db = Inr res"
    and e: "res ''count_query'' = Some e"
    using single_db_result by blast
  obtain ares ae where ar: "benchmark_api_performance steady_api = Inr ares"
    and ae: "ares ''/api/analysis/hot_numbers'' = Some ae"
    using steady_api_result by blast
  from emitted_entries_well_formed
         [of "Inr ()" single_db res "''count_query''" e steady_api ares
             "''/api/analysis/hot_numbers''" ae]
  have "(\<exists>avg med mn mx sd rate.
           e ''average_ms'' = Some avg \<and> e ''median_ms'' = Some med \<and>
           e ''min_ms'' = Some mn \<and> e ''max_ms'' = Some mx \<and>
           e ''std_dev_ms'' = Some sd \<and> e ''success_rate'' = Some rate \<and>
           mn \<le> med \<and> med \<le> mx \<and> mn \<le> avg \<and> avg \<le> mx \<and> 0 \<le> sd \<and>
           1 / 10 \<le> rate \<and> rate \<le> 1)"
    and "(\<exists>avg med mn mx rate.
           ae ''average_ms'' = Some avg \<and> ae ''median_ms'' = Some med \<and>
           ae ''min_ms'' = Some mn \<and> ae ''max_ms'' = Some mx \<and>
           ae ''success_rate'' = Some rate \<and> ae ''std_dev_ms'' = None \<and>
           mn \<le> med \<and> med \<le> mx \<and> mn \<le> avg \<and> avg \<le> mx \<and>
           1 / 10 \<le> rate \<and> rate \<le> 1)"
    using r e ar ae by blast+
  then show ?thesis using r e ar ae by blast
qed

subsection \<open>The orchestrator\<close>

lemma collect_keeps_results: "results (collect_system_metrics ts b) = results b"
  by (induction ts arbitrary: b) (auto split: sum.splits)

lemma generate_summary_no_results: "results b = [] \<Longrightarrow> generate_summary b = Inr Map.empty"
  by (simp add: generate_summary_def)

lemma run_cases:
  "run_comprehensive_benchmark w b = (Inr rep, b') \<Longrightarrow>
     b' = collect_system_metrics (ticks w) b \<and>
     (\<exists>r. generate_summary b' = Inr (summary rep) \<and> generate_recommendations b' = Inr r)"
  by (auto simp add: run_comprehensive_benchmark_def Let_def bind_res_def split: sum.splits)

lemma load_level_returns:
  "end_time lv \<noteq> start_time lv \<Longrightarrow> \<exists>entry. load_level (Suc n) lv = Inr entry"
  by (simp add: load_level_def Let_def simulate_user_session_returns gather_sessions
      filter_numbers numbers_of_numbers py_div_def py_mean_def bind_res_def del: upt_Suc)

lemma load_loop_returns:
  "0 \<notin> set us \<Longrightarrow> (\<forall>u\<in>set us. end_time (w u) \<noteq> start_time (w u)) \<Longrightarrow>
     \<exists>r. load_loop w us res = Inr r"
proof (induction us arbitrary: res)
  case Nil
  then show ?case by simp
next
  case (Cons u us)
  then obtain n where n: "u = Suc n" by (cases u) auto
  from Cons.prems load_level_returns[of "w u" n] n obtain entry
    where "load_level u (w u) = Inr entry" by auto
  then show ?case using Cons by simp
qed

lemma steady_load: "\<exists>r. benchmark_load_performance (load_world steady_world) = Inr r"
  unfolding benchmark_load_performance_def
  by (rule load_loop_returns) (simp_all add: concurrent_users_def steady_world_def)

lemma steady_cache:
  "\<exists>r. benchmark_cache_performance (cache_connect steady_world) (cache_world steady_world) = Inr r"
  by (simp add: benchmark_cache_performance_def steady_world_def cache_queries_def
      bind_res_def py_div_def)

lemma steady_recommendations:
  "\<exists>r. generate_recommendations (collect_system_metrics (ticks steady_world) init) = Inr r"
  by (simp add: generate_recommendations_def steady_world_def init_def bind_res_def
      py_mean_def py_max_def snapshot_def)

lemma steady_run:
  "\<exists>rep b' e. run_comprehensive_benchmark steady_world init = (Inr rep, b')
      \<and> database_performance rep ''count_query'' = Some e"
proof -
  obtain res e where db: "benchmark_database_performance (Inr ()) single_db = Inr res"
    and e: "res ''count_query'' = Some e"
    using single_db_result by blast
  obtain ares where api: "benchmark_api_performance steady_api = Inr ares"
    using steady_api_result by blast
  obtain cres where cache:
    "benchmark_cache_performance (cache_connect steady_world) (cache_world steady_world) = Inr cres"
    using steady_cache by blast
  obtain lres where load: "benchmark_load_performance (load_world steady_world) = Inr lres"
    using steady_load by blast
  obtain recs where recs:
    "generate_recommendations (collect_system_metrics (ticks steady_world) init) = Inr recs"
    using steady_recommendations by blast
  have s: "generate_summary (collect_system_metrics (ticks steady_world) init) = Inr Map.empty"
    by (rule generate_summary_no_results) (simp add: collect_keeps_results init_def)
  have d: "db_connect steady_world = Inr ()" "db_world steady_world = single_db"
    "api_world steady_world = steady_api"
    by (simp_all add: steady_world_def)
  show ?thesis
    using db e api cache load recs s
    by (simp add: run_comprehensive_benchmark_def Let_def bind_res_def d)
qed

lemma recommendations_without_results:
  "results b = [] \<Longrightarrow> \<exists>r. generate_recommendations b = Inr r"
  by (simp add: generate_recommendations_def bind_res_def py_mean_eq py_max_eq)

lemma partial_db_durations:
  "completed_durations (partial_db ''index_test'') [0..<10] \<noteq> []"
  by (simp add: partial_db_def upt_rec[of _ 10] numeral_eq_Suc)

text \<open>
  C3, amended: when all ten repetitions of a query fail, each failure is caught. The
  database benchmark goes on with the remaining queries and returns: the query has no
  entry in its result, and every query with a successful repetition has one. The run is
  not aborted either: when the other three categories complete, it returns a report,
  whose \<open>database_performance\<close> is that result.
\<close>

theorem all_failed_query_omitted:
  assumes "\<forall>i<10. \<exists>e. db_world w q i = Failed e" and "db_connect w = Inr ()"
  shows "\<exists>res. benchmark_database_performance (db_connect w) (db_world w) = Inr res
           \<and> res q = None
           \<and> (\<forall>q'\<in>set queries.
                 completed_durations (db_world w q') [0..<10] \<noteq> [] \<longrightarrow> res q' \<noteq> None)
           \<and> (\<not> isl (benchmark_api_performance (api_world w))
                \<and> \<not> isl (benchmark_cache_performance (cache_connect w) (cache_world w))
                \<and> \<not> isl (benchmark_load_performance (load_world w))
                \<longrightarrow> (\<exists>rep b'. run_comprehensive_benchmark w init = (Inr rep, b')
                              \<and> database_performance rep = res))"
proof -
  have none: "completed_durations (db_world w q) [0..<10] = []"
    using assms(1) by (intro completed_durations_all_failed) simp
  obtain res rows where loop: "db_loop (db_world w) queries (Map.empty, None) = Inr (res, rows)"
    using db_loop_returns[of "db_world w" queries Map.empty None] by auto
  have db: "benchmark_database_performance (db_connect w) (db_world w) = Inr res"
    using loop assms(2) by (simp add: benchmark_database_performance_def)
  have q: "res q = None"
  proof (cases "res q")
    case None
    then show ?thesis .
  next
    case (Some e)
    from db_loop_entry[OF loop Some] none show ?thesis by simp
  qed
  have others: "\<forall>q'\<in>set queries.
      completed_durations (db_world w q') [0..<10] \<noteq> [] \<longrightarrow> res q' \<noteq> None"
    using db_loop_present[OF loop] by blast
  have run: "\<exists>rep b'. run_comprehensive_benchmark w init = (Inr rep, b')
                \<and> database_performance rep = res"
    if "\<not> isl (benchmark_api_performance (api_world w))
        \<and> \<not> isl (benchmark_cache_performance (cache_connect w) (cache_world w))
        \<and> \<not> isl (benchmark_load_performance (load_world w))"
  proof -
    from that obtain ares cres lres where
      a: "benchmark_api_performance (api_world w) = Inr ares" and
      c: "benchmark_cache_performance (cache_connect w) (cache_world w) = Inr cres" and
      l: "benchmark_load_performance (load_world w) = Inr lres"
      by (metis sum.collapse(2))
    have r: "results (collect_system_metrics (ticks w) init) = []"
      by (simp add: collect_keeps_results init_def)
    from generate_summary_no_results[OF r] recommendations_without_results[OF r]
    show ?thesis
      using db a c l
      by (auto simp add: run_comprehensive_benchmark_def Let_def bind_res_def)
  qed
  show ?thesis using db q others run by blast
qed

theorem all_failed_query_omitted_witness:
  "\<exists>res rep b'. benchmark_database_performance (Inr ()) partial_db = Inr res
      \<and> res ''count_query'' = None \<and> res ''index_test'' \<noteq> None
      \<and> run_comprehensive_benchmark partial_world init = (Inr rep, b')
      \<and> database_performance rep = res"
proof -
  have f: "\<forall>i<10. \<exists>e. db_world partial_world ''count_query'' i = Failed e"
    by (simp add: partial_world_def partial_db_def)
  have c: "db_connect partial_world = Inr ()"
    by (simp add: partial_world_def steady_world_def)
  have w: "db_world partial_world = partial_db" "api_world partial_world = steady_api"
    "cache_connect partial_world = cache_connect steady_world"
    "cache_world partial_world = cache_world steady_world"
    "load_world partial_world = load_world steady_world"
    by (simp_all add: partial_world_def steady_world_def)
  have ok: "\<not> isl (benchmark_api_performance (api_world partial_world))
      \<and> \<not> isl (benchmark_cache_performance (cache_connect partial_world)
                  (cache_world partial_world))
      \<and> \<not> isl (benchmark_load_performance (load_world partial_world))"
    using steady_api_result steady_cache steady_load unfolding w by auto
  have i: "''index_test'' \<in> set queries" by (simp add: queries_def)
  from all_failed_query_omitted [OF f c] ok partial_db_durations i
  show ?thesis unfolding w c by blast
qed

text \<open>
  C4. The summary of the report is claimed to be a rollup over the durations measured
  during the run. No benchmark category appends to \<open>self.results\<close>, the list that
  \<open>generate_summary\<close> reduces: after every completed run of a fresh benchmark object the
  list is still empty and the summary of the report is the empty dict.
\<close>

theorem summary_of_a_run_is_empty:
  assumes "run_comprehensive_benchmark w init = (Inr rep, b')"
  shows "summary rep = Map.empty \<and> results b' = []"
proof -
  from run_cases[OF assms] have b': "b' = collect_system_metrics (ticks w) init"
    and s: "generate_summary b' = Inr (summary rep)" by auto
  have r: "results b' = []" by (simp add: b' collect_keeps_results init_def)
  from generate_summary_no_results[OF r] s show ?thesis using r by simp
qed

theorem summary_of_a_run_is_empty_witness:
  "\<exists>rep b' e. run_comprehensive_benchmark steady_world init = (Inr rep, b')
      \<and> database_performance rep ''count_query'' = Some e
      \<and> summary rep = Map.empty \<and> results b' = []"
proof -
  obtain rep b' e where r: "run_comprehensive_benchmark steady_world init = (Inr rep, b')"
    and e: "database_performance rep ''count_query'' = Some e"
    using steady_run by blast
  from summary_of_a_run_is_empty [OF r] r e show ?thesis by blast
qed

text \<open>
  C8. The resource sampler is claimed to run while the categories run. In the code
  \<open>collect_system_metrics\<close> is awaited after the four categories have returned: the
  benchmark object that a run leaves behind has the sampler's snapshots appended only
  if all four categories returned, and is otherwise untouched, whatever the sampler
  would have read.
\<close>

theorem sampling_follows_the_categories:
  "snd (run_comprehensive_benchmark w b) =
     (if isl (benchmark_database_performance (db_connect w) (db_world w))
         \<or> isl (benchmark_api_performance (api_world w))
         \<or> isl (benchmark_cache_performance (cache_connect w) (cache_world w))
         \<or> isl (benchmark_load_performance (load_world w))
      then b else collect_system_metrics (ticks w) b)"
  by (auto simp add: run_comprehensive_benchmark_def Let_def split: sum.splits)

subsection \<open>Rounding to a double\<close>

lemma round_even_of_int: "round_even (of_int n) = n"
  by (simp add: round_even_def)


lemma fl_zero: "fl 0 = 0"
  by (simp add: fl_def)

lemma fl_exponent:
  assumes "x \<noteq> 0" and "2 powr of_int k \<le> \<bar>x\<bar>" and "\<bar>x\<bar> < 2 powr (of_int k + 1)"
  shows "fl x = of_int (round_even (x / 2 powr (of_int k - 52))) * 2 powr (of_int k - 52)"
proof -
  have "\<lfloor>log 2 \<bar>x\<bar>\<rfloor> = k"
    using assms by (subst floor_log_eq_powr_iff) simp_all
  then show ?thesis using assms(1) by (simp add: fl_def)
qed

lemma two_powr_neg: "(2::real) powr (- real n) = 1 / 2 ^ n"
  by (simp add: powr_minus powr_realpow inverse_eq_divide)

lemma fl_big:
  assumes "2 ^ k \<le> \<bar>x\<bar>" and "\<bar>x\<bar> < 2 ^ Suc k" and "k \<le> 52"
  shows "fl x = of_int (round_even (x * 2 ^ (52 - k))) / 2 ^ (52 - k)"
proof -
  have "(1::real) \<le> 2 ^ k" by simp
  then have x: "x \<noteq> 0" using assms(1) by linarith
  have a: "2 powr of_int (int k) \<le> \<bar>x\<bar>"
    using assms(1) by (simp add: powr_realpow)
  have "(2::real) powr (real k + 1) = 2 ^ Suc k"
    using powr_realpow[of 2 "Suc k"] by (simp add: add.commute)
  then have b: "\<bar>x\<bar> < 2 powr (of_int (int k) + 1)"
    using assms(2) by simp
  have "real k - 52 = - real (52 - k)" using assms(3) by simp
  then have q: "(2::real) powr (real k - 52) = 1 / 2 ^ (52 - k)"
    by (simp only: two_powr_neg)
  from fl_exponent[OF x a b] show ?thesis by (simp add: q)
qed

lemma fl_small:
  assumes "1 \<le> \<bar>x\<bar> * 2 ^ k" and "\<bar>x\<bar> * 2 ^ k < 2"
  shows "fl x = of_int (round_even (x * 2 ^ (52 + k))) / 2 ^ (52 + k)"
proof -
  have x: "x \<noteq> 0" using assms(1) by auto
  have a: "2 powr of_int (- int k) \<le> \<bar>x\<bar>"
    using assms(1) by (simp add: two_powr_neg pos_divide_le_eq)
  have "(2::real) powr (- real k + 1) = 2 powr (- real k) * 2 powr 1"
    by (rule powr_add)
  then have "(2::real) powr (- real k + 1) = 2 / 2 ^ k"
    by (simp add: two_powr_neg)
  then have b: "\<bar>x\<bar> < 2 powr (of_int (- int k) + 1)"
    using assms(2) by (simp add: pos_less_divide_eq)
  have "- real k - 52 = - real (52 + k)" by simp
  then have q: "(2::real) powr (- real k - 52) = 1 / 2 ^ (52 + k)"
    by (simp only: two_powr_neg)
  from fl_exponent[OF x a b] show ?thesis by (simp add: q)
qed


lemma fl_integers:
  "fl 1 = 1" "fl 100 = 100" "fl 160 = 160" "fl 150 = 150" "fl 60 = 60" "fl 50 = 50"
  "fl (- 1) = - 1" "fl (- 100) = - 100" "fl (- 50) = - 50"
  by (simp add: fl_big[of 0] round_even_def,
      simp add: fl_big[of 6] round_even_def,
      simp add: fl_big[of 7] round_even_def,
      simp add: fl_big[of 7] round_even_def,
      simp add: fl_big[of 5] round_even_def,
      simp add: fl_big[of 5] round_even_def,
      simp add: fl_big[of 0] round_even_def,
      simp add: fl_big[of 6] round_even_def,
      simp add: fl_big[of 5] round_even_def)

lemma fl_halves: "fl (1 / 2) = 1 / 2" "fl (- 1 / 2) = - 1 / 2" "fl (- (1 / 2)) = - (1 / 2)"
  by (simp_all add: fl_small[of _ 1] round_even_def)

lemma fl_three_fifths: "fl (3 / 5) = 5404319552844595 / 9007199254740992"
  by (simp add: fl_small[of _ 1] round_even_def)

lemma fl_sixty: "fl (135107988821114875 / 2251799813685248) = 60"
  by (simp add: fl_big[of 5] round_even_def)

lemma pct_examples:
  "pct 160 100 = 60" "pct 150 100 = 50" "pct 0 100 = - 100" "pct (1 / 2) 1 = - 50"
  by (simp_all add: pct_def fl_integers fl_halves fl_three_fifths fl_sixty)



subsection \<open>The comparison with a baseline\<close>

lemma guarded_Inr:
  "\<exists>v. (if xs \<noteq> [] then py_mean xs else Inr 0) = Inr v"
  "\<exists>v. (if xs \<noteq> [] then py_median xs else Inr 0) = Inr v"
  "\<exists>v. (if xs \<noteq> [] then py_max xs else Inr 0) = Inr v"
  "\<exists>v. (if xs \<noteq> [] then py_min xs else Inr 0) = Inr v"
  using py_median_Inr[of xs] by (auto simp add: py_mean_eq py_max_eq py_min_eq)

lemma compare_metric_skip:
  "\<not> 0 < get0 bas m \<Longrightarrow> compare_metric cur bas m c = Inr c"
  by (simp add: compare_metric_def Let_def)

lemma compare_metric_eq:
  assumes "0 < get0 bas m"
  shows "compare_metric cur bas m c =
     Inr \<lparr>performance_changes = (performance_changes c)(m \<mapsto>
             \<lparr>baseline = get0 bas m, current = get0 cur m,
              change_percent = pct (get0 cur m) (get0 bas m)\<rparr>),
          regressions_detected = regressions_detected c @
           (if pct (get0 cur m) (get0 bas m) > 10 \<and>
               m \<in> set [''average_response_time_ms'', ''average_cpu_percent'',
                         ''average_memory_percent'']
            then [\<lparr>regression_metric = m,
                   regression_severity =
                     (if pct (get0 cur m) (get0 bas m) > 50
                      then High else Medium),
                   regression_change_percent =
                     pct (get0 cur m) (get0 bas m)\<rparr>]
            else []),
          improvements_detected = improvements_detected c @
           (if pct (get0 cur m) (get0 bas m) < - 10 \<and>
               (m \<in> set [''average_response_time_ms''] \<or> m = ''success_rate'')
            then [\<lparr>improvement_metric = m,
                   improvement_percent = \<bar>pct (get0 cur m) (get0 bas m)\<bar>\<rparr>]
            else [])\<rparr>"
proof -
  define cp where "cp = pct (get0 cur m) (get0 bas m)"
  have cp: "fmul (fl (fsub (get0 cur m) (get0 bas m) / get0 bas m)) 100 = cp"
    by (simp add: cp_def pct_def fmul_def fsub_def)
  define hw where "hw \<longleftrightarrow> m \<in> set [''average_response_time_ms'', ''average_cpu_percent'',
                         ''average_memory_percent'']"
  define lw where "lw \<longleftrightarrow> m \<in> set [''average_response_time_ms'']"
  have d: "fdiv (fsub (get0 cur m) (get0 bas m)) (get0 bas m)
             = Inr (fl (fsub (get0 cur m) (get0 bas m) / get0 bas m))"
    using assms by (simp add: fdiv_def)
  show ?thesis
    unfolding compare_metric_def Let_def d bind_res_def sum.case cp
    unfolding cp_def[symmetric] hw_def[symmetric] lw_def[symmetric]
    using assms
    by (cases "cp > 10"; cases "cp < - 10"; cases hw; cases lw; cases c; simp)
qed


lemma compare_metric_returns: "\<exists>c'. compare_metric cur bas m c = Inr c'"
  using compare_metric_skip[of bas m cur c] compare_metric_eq[of bas m cur c]
  by (cases "0 < get0 bas m") simp_all

lemma compare_metric_frame:
  assumes "compare_metric cur bas m' c = Inr c'" and "m \<noteq> m'"
  shows "performance_changes c' m = performance_changes c m
       \<and> filter (\<lambda>r. regression_metric r = m) (regressions_detected c')
           = filter (\<lambda>r. regression_metric r = m) (regressions_detected c)
       \<and> filter (\<lambda>i. improvement_metric i = m) (improvements_detected c')
           = filter (\<lambda>i. improvement_metric i = m) (improvements_detected c)"
proof (cases "0 < get0 bas m'")
  case True
  from assms(1)[unfolded compare_metric_eq[OF True]] show ?thesis
    using assms(2) by auto
next
  case False
  then show ?thesis using assms(1) by (simp add: compare_metric_skip)
qed

lemma compare_loop_returns: "\<exists>c'. compare_loop cur bas ms c = Inr c'"
proof (induction ms arbitrary: c)
  case Nil
  then show ?case by simp
next
  case (Cons m ms)
  obtain c1 where "compare_metric cur bas m c = Inr c1"
    using compare_metric_returns by blast
  then show ?case using Cons.IH[of c1] by simp
qed

lemma compare_loop_frame:
  assumes "compare_loop cur bas ms c = Inr c'" and "m \<notin> set ms \<or> \<not> 0 < get0 bas m"
  shows "performance_changes c' m = performance_changes c m
       \<and> filter (\<lambda>r. regression_metric r = m) (regressions_detected c')
           = filter (\<lambda>r. regression_metric r = m) (regressions_detected c)
       \<and> filter (\<lambda>i. improvement_metric i = m) (improvements_detected c')
           = filter (\<lambda>i. improvement_metric i = m) (improvements_detected c)"
  using assms
proof (induction ms arbitrary: c)
  case Nil
  then show ?case by simp
next
  case (Cons a ms)
  obtain c1 where c1: "compare_metric cur bas a c = Inr c1"
    using compare_metric_returns by blast
  then have rest: "compare_loop cur bas ms c1 = Inr c'"
    using Cons.prems(1) by simp
  have cond: "m \<notin> set ms \<or> \<not> 0 < get0 bas m" using Cons.prems(2) by auto
  note IH = Cons.IH[OF rest cond]
  show ?case
  proof (cases "m = a")
    case True
    then have "\<not> 0 < get0 bas a" using Cons.prems(2) by auto
    then have "c1 = c" using c1 by (simp add: compare_metric_skip)
    then show ?thesis using IH by simp
  next
    case False
    from compare_metric_frame[OF c1 False] IH show ?thesis by simp
  qed
qed

lemma generate_summary_returns: "\<exists>s. generate_summary b = Inr s"
proof (cases "results b = []")
  case True
  then show ?thesis by (simp add: generate_summary_def)
next
  case False
  let ?d = "map duration_ms (filter success (results b))"
  obtain v1 v2 v3 v4 where v:
    "(if ?d \<noteq> [] then py_mean ?d else Inr 0) = Inr v1"
    "(if ?d \<noteq> [] then py_median ?d else Inr 0) = Inr v2"
    "(if ?d \<noteq> [] then py_max ?d else Inr 0) = Inr v3"
    "(if ?d \<noteq> [] then py_min ?d else Inr 0) = Inr v4"
    using guarded_Inr[of ?d] by blast
  have dv: "py_div (real (length (filter success (results b)))) (real (length (results b)))
     = Inr (real (length (filter success (results b))) / real (length (results b)))"
    using False by (simp add: py_div_def)
  show ?thesis
  proof (cases "metrics_history b = []")
    case True
    show ?thesis
      unfolding generate_summary_def Let_def v dv bind_res_def sum.case
      using False True by simp
  next
    case F2: False
    have m: "py_mean (map cpu_percent (metrics_history b)) = Inr (sum_list (map cpu_percent (metrics_history b)) / real (length (map cpu_percent (metrics_history b))))"
      "py_mean (map memory_percent (metrics_history b)) = Inr (sum_list (map memory_percent (metrics_history b)) / real (length (map memory_percent (metrics_history b))))"
      "py_max (map cpu_percent (metrics_history b)) = Inr (Max (set (map cpu_percent (metrics_history b))))"
      "py_max (map memory_percent (metrics_history b)) = Inr (Max (set (map memory_percent (metrics_history b))))"
      "py_max (map memory_mb (metrics_history b)) = Inr (Max (set (map memory_mb (metrics_history b))))"
      using F2 by (simp_all add: py_mean_eq py_max_eq)
    show ?thesis
      unfolding generate_summary_def Let_def v dv m bind_res_def sum.case
      using False F2 by simp
  qed
qed

lemma compare_loop_at:
  assumes "compare_loop cur bas ms c = Inr c'" and "m \<in> set ms" and "distinct ms"
    and "0 < get0 bas m"
  shows "performance_changes c' m =
           Some \<lparr>baseline = get0 bas m, current = get0 cur m,
                 change_percent = pct (get0 cur m) (get0 bas m)\<rparr>
       \<and> filter (\<lambda>r. regression_metric r = m) (regressions_detected c')
           = filter (\<lambda>r. regression_metric r = m) (regressions_detected c) @
             (if pct (get0 cur m) (get0 bas m) > 10 \<and>
                 m \<in> set [''average_response_time_ms'', ''average_cpu_percent'',
                           ''average_memory_percent'']
              then [\<lparr>regression_metric = m,
                     regression_severity =
                       (if pct (get0 cur m) (get0 bas m) > 50
                        then High else Medium),
                     regression_change_percent =
                       pct (get0 cur m) (get0 bas m)\<rparr>]
              else [])
       \<and> filter (\<lambda>i. improvement_metric i = m) (improvements_detected c')
           = filter (\<lambda>i. improvement_metric i = m) (improvements_detected c) @
             (if pct (get0 cur m) (get0 bas m) < - 10 \<and>
                 (m \<in> set [''average_response_time_ms''] \<or> m = ''success_rate'')
              then [\<lparr>improvement_metric = m,
                     improvement_percent =
                       \<bar>pct (get0 cur m) (get0 bas m)\<bar>\<rparr>]
              else [])"
  using assms(1,2,3)
proof (induction ms arbitrary: c)
  case Nil
  then show ?case by simp
next
  case (Cons a ms)
  obtain c1 where c1: "compare_metric cur bas a c = Inr c1"
    using compare_metric_returns by blast
  then have rest: "compare_loop cur bas ms c1 = Inr c'"
    using Cons.prems(1) by simp
  show ?case
  proof (cases "m = a")
    case True
    then have "m \<notin> set ms" using Cons.prems(3) by simp
    then have fr: "m \<notin> set ms \<or> \<not> 0 < get0 bas m" by simp
    note F = compare_loop_frame[OF rest fr]
    from c1[unfolded True[symmetric] compare_metric_eq[OF assms(4)]]
    have c1_eq: "c1 = \<lparr>performance_changes = (performance_changes c)(m \<mapsto>
             \<lparr>baseline = get0 bas m, current = get0 cur m,
              change_percent = pct (get0 cur m) (get0 bas m)\<rparr>),
          regressions_detected = regressions_detected c @
           (if pct (get0 cur m) (get0 bas m) > 10 \<and>
               m \<in> set [''average_response_time_ms'', ''average_cpu_percent'',
                         ''average_memory_percent'']
            then [\<lparr>regression_metric = m,
                   regression_severity =
                     (if pct (get0 cur m) (get0 bas m) > 50
                      then High else Medium),
                   regression_change_percent =
                     pct (get0 cur m) (get0 bas m)\<rparr>]
            else []),
          improvements_detected = improvements_detected c @
           (if pct (get0 cur m) (get0 bas m) < - 10 \<and>
               (m \<in> set [''average_response_time_ms''] \<or> m = ''success_rate'')
            then [\<lparr>improvement_metric = m,
                   improvement_percent = \<bar>pct (get0 cur m) (get0 bas m)\<bar>\<rparr>]
            else [])\<rparr>"
      by simp
    have p: "performance_changes c1 m = Some \<lparr>baseline = get0 bas m, current = get0 cur m,
              change_percent = pct (get0 cur m) (get0 bas m)\<rparr>"
      by (simp add: c1_eq)
    have r: "filter (\<lambda>r. regression_metric r = m) (regressions_detected c1)
           = filter (\<lambda>r. regression_metric r = m) (regressions_detected c) @
             (if pct (get0 cur m) (get0 bas m) > 10 \<and>
                 m \<in> set [''average_response_time_ms'', ''average_cpu_percent'',
                           ''average_memory_percent'']
              then [\<lparr>regression_metric = m,
                     regression_severity =
                       (if pct (get0 cur m) (get0 bas m) > 50
                        then High else Medium),
                     regression_change_percent =
                       pct (get0 cur m) (get0 bas m)\<rparr>]
              else [])"
      by (simp add: c1_eq del: set_simps)
    have i: "filter (\<lambda>i. improvement_metric i = m) (improvements_detected c1)
           = filter (\<lambda>i. improvement_metric i = m) (improvements_detected c) @
             (if pct (get0 cur m) (get0 bas m) < - 10 \<and>
                 (m \<in> set [''average_response_time_ms''] \<or> m = ''success_rate'')
              then [\<lparr>improvement_metric = m,
                     improvement_percent =
                       \<bar>pct (get0 cur m) (get0 bas m)\<bar>\<rparr>]
              else [])"
      by (simp add: c1_eq del: set_simps)
    show ?thesis using F p r i by (simp only:) 
  next
    case False
    then have "m \<in> set ms" using Cons.prems(2) by simp
    moreover have "distinct ms" using Cons.prems(3) by simp
    ultimately have IH: "performance_changes c' m =
           Some \<lparr>baseline = get0 bas m, current = get0 cur m,
                 change_percent = pct (get0 cur m) (get0 bas m)\<rparr>
       \<and> filter (\<lambda>r. regression_metric r = m) (regressions_detected c')
           = filter (\<lambda>r. regression_metric r = m) (regressions_detected c1) @
             (if pct (get0 cur m) (get0 bas m) > 10 \<and>
                 m \<in> set [''average_response_time_ms'', ''average_cpu_percent'',
                           ''average_memory_percent'']
              then [\<lparr>regression_metric = m,
                     regression_severity =
                       (if pct (get0 cur m) (get0 bas m) > 50
                        then High else Medium),
                     regression_change_percent =
                       pct (get0 cur m) (get0 bas m)\<rparr>]
              else [])
       \<and> filter (\<lambda>i. improvement_metric i = m) (improvements_detected c')
           = filter (\<lambda>i. improvement_metric i = m) (improvements_detected c1) @
             (if pct (get0 cur m) (get0 bas m) < - 10 \<and>
                 (m \<in> set [''average_response_time_ms''] \<or> m = ''success_rate'')
              then [\<lparr>improvement_metric = m,
                     improvement_percent =
                       \<bar>pct (get0 cur m) (get0 bas m)\<bar>\<rparr>]
              else [])"
      using Cons.IH[OF rest] by blast
    from compare_metric_frame[OF c1 False] IH show ?thesis by (simp only:)
  qed
qed

lemma metrics_distinct: "distinct metrics_to_compare"
  by (simp add: metrics_to_compare_def)

lemma compare_with_baseline_returns:
  "\<exists>cur c. generate_summary b = Inr cur \<and> compare_with_baseline b (Inr bas) = Inr c
     \<and> compare_loop cur bas metrics_to_compare
          \<lparr>performance_changes = Map.empty, regressions_detected = [],
           improvements_detected = []\<rparr> = Inr c"
proof -
  obtain cur where cur: "generate_summary b = Inr cur"
    using generate_summary_returns by blast
  obtain c where c: "compare_loop cur bas metrics_to_compare
          \<lparr>performance_changes = Map.empty, regressions_detected = [],
           improvements_detected = []\<rparr> = Inr c"
    using compare_loop_returns by blast
  show ?thesis using cur c by (simp add: compare_with_baseline_def bind_res_def)
qed


lemma half_failed_summary:
  "\<exists>cur. generate_summary half_failed = Inr cur \<and> cur ''success_rate'' = Some (1 / 2)"
  by (simp add: generate_summary_def half_failed_def bind_res_def py_div_def py_mean_def
      py_median_def py_max_def py_min_def)

lemma get0_values:
  "d k = Some 0 \<Longrightarrow> get0 d k = 0"
  "d k = Some v \<Longrightarrow> get0 d k = fl v"
  "d k = None \<Longrightarrow> get0 d k = 0"
  by (simp_all add: get0_def fl_zero)



text \<open>
  C5. A metric for which lower is worse is claimed never to be listed as an improvement
  when it dropped. The condition of the code,
  \<open>metric == 'success_rate' and change_percent < -10\<close>, does the opposite: with a baseline
  success rate of 1 and a current one of 1/2 the change is -50 percent, and
  \<open>success_rate\<close> is appended to \<open>improvements_detected\<close> with an improvement of 50.
\<close>

theorem success_rate_drop_flagged_as_improvement:
  "map_sum id
     (\<lambda>c. (performance_changes c ''success_rate'',
           filter (\<lambda>i. improvement_metric i = ''success_rate'') (improvements_detected c)))
     (compare_with_baseline half_failed (Inr [''success_rate'' \<mapsto> 1]))
   = Inr (Some \<lparr>baseline = 1, current = 1 / 2, change_percent = - 50\<rparr>,
          [\<lparr>improvement_metric = ''success_rate'', improvement_percent = 50\<rparr>])"
proof -
  obtain cur where cur: "generate_summary half_failed = Inr cur"
    and sr: "cur ''success_rate'' = Some (1 / 2)"
    using half_failed_summary by blast
  obtain cur' c where cur': "generate_summary half_failed = Inr cur'"
    and cmp: "compare_with_baseline half_failed (Inr [''success_rate'' \<mapsto> 1]) = Inr c"
    and loop: "compare_loop cur' [''success_rate'' \<mapsto> 1] metrics_to_compare
          \<lparr>performance_changes = Map.empty, regressions_detected = [],
           improvements_detected = []\<rparr> = Inr c"
    using compare_with_baseline_returns by blast
  have same: "cur' = cur" using cur cur' by simp
  have g: "get0 [''success_rate'' \<mapsto> 1] ''success_rate'' = 1"
    "get0 cur ''success_rate'' = 1 / 2"
    using sr by (simp_all add: get0_def fl_integers fl_halves)
  have pos: "0 < get0 [''success_rate'' \<mapsto> 1] ''success_rate''" by (simp add: g)
  have mem: "''success_rate'' \<in> set metrics_to_compare"
    by (simp add: metrics_to_compare_def)
  note A = compare_loop_at[OF loop[unfolded same] mem metrics_distinct pos, unfolded g pct_examples]
  show ?thesis using A by (simp add: cmp)
qed

text \<open>
  C6. A metric whose baseline value is 0 is left out of the comparison: the comparison is
  computed (the error dict is not returned, no division by zero is attempted), the
  metric has no entry in \<open>performance_changes\<close>, and it occurs neither among the
  regressions nor among the improvements.
\<close>

theorem zero_baseline_metric_omitted:
  assumes "bas metric = Some 0"
  shows "\<exists>c. compare_with_baseline b (Inr bas) = Inr c
           \<and> performance_changes c metric = None
           \<and> metric \<notin> set (map regression_metric (regressions_detected c))
           \<and> metric \<notin> set (map improvement_metric (improvements_detected c))"
proof -
  obtain cur c where cmp: "compare_with_baseline b (Inr bas) = Inr c"
    and loop: "compare_loop cur bas metrics_to_compare
          \<lparr>performance_changes = Map.empty, regressions_detected = [],
           improvements_detected = []\<rparr> = Inr c"
    using compare_with_baseline_returns by blast
  have "metric \<notin> set metrics_to_compare \<or> \<not> 0 < get0 bas metric"
    using assms by (simp add: get0_values)
  from compare_loop_frame[OF loop this]
  have p: "performance_changes c metric = None"
    and r: "filter (\<lambda>r. regression_metric r = metric) (regressions_detected c) = []"
    and i: "filter (\<lambda>i. improvement_metric i = metric) (improvements_detected c) = []"
    by simp_all
  have "metric \<notin> set (map regression_metric (regressions_detected c))"
    using r by (auto simp add: filter_empty_conv)
  moreover have "metric \<notin> set (map improvement_metric (improvements_detected c))"
    using i by (auto simp add: filter_empty_conv)
  ultimately show ?thesis using cmp p by blast
qed

theorem zero_baseline_metric_omitted_witness:
  "\<exists>c. compare_with_baseline (measured 160)
           (Inr [''average_response_time_ms'' \<mapsto> 0, ''success_rate'' \<mapsto> 1 / 2]) = Inr c
       \<and> performance_changes c ''average_response_time_ms'' = None
       \<and> ''average_response_time_ms'' \<notin> set (map regression_metric (regressions_detected c))
       \<and> ''average_response_time_ms'' \<notin> set (map improvement_metric (improvements_detected c))"
  using zero_baseline_metric_omitted
    [of "[''average_response_time_ms'' \<mapsto> 0, ''success_rate'' \<mapsto> 1 / 2]"
        "''average_response_time_ms''" "measured 160"]
  by simp



end
